theory Spec2Isabelle
  imports Main "HOL-Library.AList" "HOL-Library.Multiset"
begin

section \<open>Data model\<close>

text \<open>
  The gateway of \<^verbatim>\<open>src/app/main.py\<close> is modelled function by function. Python
  strings are \<open>string\<close> (the UTF-8 bytes of the text), Python integers are \<open>int\<close>, a
  \<^verbatim>\<open>dict\<close> with string keys is an association list kept in insertion order, and a raised
  exception is the \<open>Inl\<close> side of a sum. The two module globals the rotator reads and
  writes, and the trace of calls that leave the process, form the state that every
  function takes and returns. The \<^verbatim>\<open>print\<close> calls of the source are not modelled.
\<close>

datatype py_value =
    PyNone
  | PyBool bool
  | PyInt int
  | PyStr string
  | PyList "py_value list"
  | PyDict "(string \<times> py_value) list"

type_synonym py_dict = "(string \<times> py_value) list"

text \<open>
  \<open>HTTPException\<close> is FastAPI's exception with its two arguments; \<open>IndexError\<close> is what
  Python raises for a list subscript out of range; \<open>RequestValidationError\<close> is what
  FastAPI raises by itself for a request that does not fit the signature of the function
  it is routed to. \<open>http_status\<close> is the status of the response the client gets for each:
  the exception's own, 422 for a request that does not validate, and 500 for an exception
  that no handler catches.
\<close>

datatype error =
    HTTPException (status_code: int) (detail: string)
  | IndexError
  | RequestValidationError

definition http_status :: "error \<Rightarrow> int" where
  "http_status e =
     (case e of
        HTTPException s d \<Rightarrow> s
      | IndexError \<Rightarrow> 500
      | RequestValidationError \<Rightarrow> 422)"

text \<open>Calls that leave the process, as the source issues them.\<close>

datatype outbound =
    HttpGet string py_dict
  | SignUp py_dict
  | SignInWithPassword py_dict
  | GetUser string
  | TableSelect string string string
  | TableInsert string py_dict

record state =
  GNEWS_API_KEYS :: "string list"
  current_api_key_index :: int
  calls :: "outbound list"

definition issue :: "outbound \<Rightarrow> state \<Rightarrow> state" where
  "issue c st = st\<lparr>calls := calls st @ [c]\<rparr>"

subsection \<open>Python primitives used by the source\<close>

text \<open>\<^verbatim>\<open>xs[i]\<close>: a negative subscript counts from the end, anything else out of range raises.\<close>

definition subscript :: "'a list \<Rightarrow> int \<Rightarrow> error + 'a" where
  "subscript xs i =
     (if 0 \<le> i \<and> i < int (length xs) then Inr (xs ! nat i)
      else if i < 0 \<and> - int (length xs) \<le> i then Inr (xs ! nat (i + int (length xs)))
      else Inl IndexError)"

section \<open>Key rotator\<close>

text \<open>
  \<^verbatim>\<open>
  def get_gnews_api_key():
      global current_api_key_index
      if not GNEWS_API_KEYS:
          raise HTTPException(status_code=500, detail="GNews API keys not configured.")
      key = GNEWS_API_KEYS[current_api_key_index]
      current_api_key_index = (current_api_key_index + 1) % len(GNEWS_API_KEYS)
      return key
  \<close>
\<close>

definition get_gnews_api_key :: "state \<Rightarrow> (error + string) \<times> state" where
  "get_gnews_api_key st =
     (if GNEWS_API_KEYS st = [] then
        (Inl (HTTPException 500 ''GNews API keys not configured.''), st)
      else
        (case subscript (GNEWS_API_KEYS st) (current_api_key_index st) of
           Inl e \<Rightarrow> (Inl e, st)
         | Inr key \<Rightarrow>
             (Inr key,
              st\<lparr>current_api_key_index :=
                   (current_api_key_index st + 1) mod int (length (GNEWS_API_KEYS st))\<rparr>)))"

text \<open>\<open>n\<close> successive calls of the rotator, with what each call returned.\<close>

fun call_rotator :: "nat \<Rightarrow> state \<Rightarrow> (error + string) list \<times> state" where
  "call_rotator 0 st = ([], st)"
| "call_rotator (Suc n) st =
     (case get_gnews_api_key st of
        (r, st1) \<Rightarrow> (case call_rotator n st1 of (rs, st2) \<Rightarrow> (r # rs, st2)))"

text \<open>The state of a process that has just started with the given credentials.\<close>

definition fresh :: "string list \<Rightarrow> state" where
  "fresh keys = \<lparr>GNEWS_API_KEYS = keys, current_api_key_index = 0, calls = []\<rparr>"

definition cursor_ok :: "state \<Rightarrow> bool" where
  "cursor_ok st \<longleftrightarrow>
     0 \<le> current_api_key_index st \<and>
     current_api_key_index st < int (length (GNEWS_API_KEYS st))"

section \<open>Outbound fetch helper\<close>

text \<open>
  \<^verbatim>\<open>
  def fetch_gnews(endpoint: str, params: dict):
      api_key = get_gnews_api_key()
      base_url = "https://gnews.io/api/v4"
      params["apikey"] = api_key
      try:
          response = requests.get(f"{base_url}/{endpoint}", params=params)
          response.raise_for_status()
          return response.json()
      except requests.exceptions.RequestException as e:
          raise HTTPException(status_code=400, detail=f"Error fetching from GNews: {e}")
  \<close>
  The three library calls of the \<^verbatim>\<open>try\<close> block are one parameter \<open>requests_get\<close>: given
  the URL and the query parameters it yields either the text \<^verbatim>\<open>str(e)\<close> of the
  \<^verbatim>\<open>RequestException\<close> raised (a transport failure, or the non-success status that
  \<^verbatim>\<open>raise_for_status\<close> turns into one) or the parsed body. The dictionary is the caller's
  object and is written in place, so the model returns its content after the call next
  to the result. \<open>AList.update\<close> is Python's item assignment: an existing key keeps its
  position, a new key goes last.
\<close>

type_synonym http_get = "string \<Rightarrow> py_dict \<Rightarrow> string + py_value"

definition fetch_gnews ::
  "http_get \<Rightarrow> string \<Rightarrow> py_dict \<Rightarrow> state \<Rightarrow> (error + py_value) \<times> py_dict \<times> state" where
  "fetch_gnews requests_get endpoint params st =
     (case get_gnews_api_key st of
        (Inl e, st1) \<Rightarrow> (Inl e, params, st1)
      | (Inr api_key, st1) \<Rightarrow>
          (let base_url = ''https://gnews.io/api/v4'';
               params1 = AList.update ''apikey'' (PyStr api_key) params;
               url = base_url @ ''/'' @ endpoint;
               st2 = issue (HttpGet url params1) st1
           in case requests_get url params1 of
                Inl e \<Rightarrow>
                  (Inl (HTTPException 400 (''Error fetching from GNews: '' @ e)), params1, st2)
              | Inr body \<Rightarrow> (Inr body, params1, st2)))"

section \<open>News query handlers\<close>

text \<open>
  \<^verbatim>\<open>str.lower()\<close>. On a text of ASCII characters only it maps the letters A to Z to a to z
  and leaves every other character. On any other text it is Python's Unicode lower-casing,
  which can change the length of the text (U+0130) and looks at the neighbours of a
  character (final sigma); its case tables are not part of the source, so it is the
  parameter \<open>unicode_lower\<close>.
\<close>

definition ascii_lower :: "char \<Rightarrow> char" where
  "ascii_lower c =
     (let n = (of_char c :: nat)
      in if 65 \<le> n \<and> n \<le> 90 then char_of (n + 32) else c)"

definition is_ascii :: "string \<Rightarrow> bool" where
  "is_ascii s = list_all (\<lambda>c. (of_char c :: nat) < 128) s"

definition lower :: "(string \<Rightarrow> string) \<Rightarrow> string \<Rightarrow> string" where
  "lower unicode_lower s = (if is_ascii s then map ascii_lower s else unicode_lower s)"

text \<open>
  A handler builds its dictionary, hands it to \<open>fetch_gnews\<close> and returns what that
  returns; the dictionary is local and is dropped.
\<close>

definition get_top_headlines ::
  "http_get \<Rightarrow> int \<Rightarrow> string \<Rightarrow> state \<Rightarrow> (error + py_value) \<times> state" where
  "get_top_headlines requests_get page lang st =
     (let params = [(''lang'', PyStr lang), (''max'', PyInt 9), (''page'', PyInt page)]
      in case fetch_gnews requests_get ''top-headlines'' params st of
           (r, params1, st1) \<Rightarrow> (r, st1))"

definition get_news_by_category ::
  "http_get \<Rightarrow> (string \<Rightarrow> string) \<Rightarrow> string \<Rightarrow> int \<Rightarrow> string \<Rightarrow> state \<Rightarrow>
     (error + py_value) \<times> state" where
  "get_news_by_category requests_get unicode_lower category_name page lang st =
     (let params = [(''topic'', PyStr (lower unicode_lower category_name)),
                    (''lang'', PyStr lang), (''max'', PyInt 9), (''page'', PyInt page)]
      in case fetch_gnews requests_get ''top-headlines'' params st of
           (r, params1, st1) \<Rightarrow> (r, st1))"

text \<open>
  \<^verbatim>\<open>
  def search_news(q: str, page: int = 1, lang: str = 'en'):
      if not q:
          raise HTTPException(status_code=400, detail="Search query parameter 'q' is required.")
  \<close>
  The function body receives a string, for which \<^verbatim>\<open>not q\<close> means that it is empty.
\<close>

definition search_news ::
  "http_get \<Rightarrow> string \<Rightarrow> int \<Rightarrow> string \<Rightarrow> state \<Rightarrow> (error + py_value) \<times> state" where
  "search_news requests_get q page lang st =
     (if q = [] then
        (Inl (HTTPException 400 ''Search query parameter 'q' is required.''), st)
      else
        (let params = [(''q'', PyStr q), (''lang'', PyStr lang), (''max'', PyInt 9),
                       (''page'', PyInt page), (''sortby'', PyStr ''publishedAt'')]
         in case fetch_gnews requests_get ''search'' params st of
              (r, params1, st1) \<Rightarrow> (r, st1)))"

text \<open>
  The function is served through \<^verbatim>\<open>@app.get("/api/news/search")\<close>, and FastAPI binds the
  query string of a request to the signature before it calls the function: \<^verbatim>\<open>q: str\<close> has
  no default, so a request that does not give \<open>q\<close> is answered with the validation error
  and the function is not called; \<open>page\<close> and \<open>lang\<close> fall back to \<open>1\<close> and \<open>en\<close>.
  A parameter the request does not give is \<open>None\<close> here, and \<open>page\<close> is taken as already
  read as an integer.
\<close>

definition search_news_route ::
  "http_get \<Rightarrow> string option \<Rightarrow> int option \<Rightarrow> string option \<Rightarrow> state \<Rightarrow>
     (error + py_value) \<times> state" where
  "search_news_route requests_get q page lang st =
     (case q of
        None \<Rightarrow> (Inl RequestValidationError, st)
      | Some qs \<Rightarrow>
          search_news requests_get qs
            (case page of None \<Rightarrow> 1 | Some p \<Rightarrow> p)
            (case lang of None \<Rightarrow> ''en'' | Some l \<Rightarrow> l) st)"

section \<open>The hosted auth and storage backend\<close>

text \<open>
  The \<^verbatim>\<open>supabase\<close> client is a record of the five calls the source makes on it. Each
  yields \<open>Inl\<close> of the text \<^verbatim>\<open>str(e)\<close> of whatever exception the call raised, or its value.
  \<open>get_user\<close> stands for \<^verbatim>\<open>supabase.auth.get_user(token)\<close> followed by \<^verbatim>\<open>user.user.id\<close>,
  which the source always runs together inside one \<^verbatim>\<open>try\<close>.
\<close>

record auth_response =
  user :: py_value
  session :: py_value

record supabase_client =
  sign_up :: "py_dict \<Rightarrow> string + auth_response"
  sign_in_with_password :: "py_dict \<Rightarrow> string + auth_response"
  get_user :: "string \<Rightarrow> string + string"
  select_eq :: "string \<Rightarrow> string \<Rightarrow> string \<Rightarrow> string + py_value"
  insert_row :: "string \<Rightarrow> py_dict \<Rightarrow> string + py_value"

record UserAuth =
  email :: string
  password :: string
  name :: "string option"

record NewsArticle =
  title :: string
  description :: string
  content :: "string option"
  url :: string
  image_field :: "string option"
  publishedAt :: "string option"

section \<open>Auth forwarding handlers\<close>

definition signup_data :: "UserAuth \<Rightarrow> py_dict" where
  "signup_data user_credentials =
     (let d = [(''email'', PyStr (email user_credentials)),
               (''password'', PyStr (password user_credentials))]
      in case name user_credentials of
           None \<Rightarrow> d
         | Some n \<Rightarrow>
             if n = [] then d
             else AList.update ''options'' (PyDict [(''data'', PyDict [(''name'', PyStr n)])]) d)"

definition signup :: "supabase_client \<Rightarrow> UserAuth \<Rightarrow> state \<Rightarrow> (error + py_dict) \<times> state" where
  "signup supabase user_credentials st =
     (let d = signup_data user_credentials;
          st1 = issue (SignUp d) st
      in case sign_up supabase d of
           Inl e \<Rightarrow> (Inl (HTTPException 400 e), st1)
         | Inr r \<Rightarrow> (Inr [(''user'', user r), (''session'', session r)], st1))"

definition login :: "supabase_client \<Rightarrow> UserAuth \<Rightarrow> state \<Rightarrow> (error + py_dict) \<times> state" where
  "login supabase user_credentials st =
     (let d = [(''email'', PyStr (email user_credentials)),
               (''password'', PyStr (password user_credentials))];
          st1 = issue (SignInWithPassword d) st
      in case sign_in_with_password supabase d of
           Inl e \<Rightarrow> (Inl (HTTPException 401 ''Invalid login credentials.''), st1)
         | Inr r \<Rightarrow> (Inr [(''user'', user r), (''session'', session r)], st1))"

section \<open>User-data handlers\<close>

text \<open>\<^verbatim>\<open>s.split(sep)\<close> for a separator of one character: the fields between the separators.\<close>

fun str_split :: "char \<Rightarrow> string \<Rightarrow> string list" where
  "str_split sep [] = [[]]"
| "str_split sep (c # cs) =
     (if c = sep then [] # str_split sep cs
      else (case str_split sep cs of
              [] \<Rightarrow> [[c]]
            | w # ws \<Rightarrow> (c # w) # ws))"

text \<open>\<^verbatim>\<open>article.dict()\<close>: the six declared fields in their order, an absent optional one as \<^verbatim>\<open>None\<close>.\<close>

definition optional :: "string option \<Rightarrow> py_value" where
  "optional v = (case v of None \<Rightarrow> PyNone | Some s \<Rightarrow> PyStr s)"

definition article_dict :: "NewsArticle \<Rightarrow> py_dict" where
  "article_dict article =
     [(''title'', PyStr (title article)),
      (''description'', PyStr (description article)),
      (''content'', optional (content article)),
      (''url'', PyStr (url article)),
      (''image'', optional (image_field article)),
      (''publishedAt'', optional (publishedAt article))]"

text \<open>
  Every handler starts with
  \<^verbatim>\<open>
      if not authorization:
          raise HTTPException(status_code=401, detail="Unauthorized")
      token = authorization.split(" ")[1] if " " in authorization else authorization
  \<close>
  and the subscript stands outside every \<^verbatim>\<open>try\<close>.
\<close>

definition get_saved_news ::
  "supabase_client \<Rightarrow> string option \<Rightarrow> state \<Rightarrow> (error + py_value) \<times> state" where
  "get_saved_news supabase authorization st =
     (case authorization of
        None \<Rightarrow> (Inl (HTTPException 401 ''Unauthorized''), st)
      | Some a \<Rightarrow>
          if a = [] then (Inl (HTTPException 401 ''Unauthorized''), st)
          else
            (case (if CHR '' '' \<in> set a then subscript (str_split CHR '' '' a) 1 else Inr a) of
               Inl e \<Rightarrow> (Inl e, st)
             | Inr token \<Rightarrow>
                 (let st1 = issue (GetUser token) st
                  in case get_user supabase token of
                       Inl e \<Rightarrow> (Inl (HTTPException 401 ''Invalid token''), st1)
                     | Inr user_id \<Rightarrow>
                         (let st2 = issue (TableSelect ''savednews'' ''user_id'' user_id) st1
                          in case select_eq supabase ''savednews'' ''user_id'' user_id of
                               Inl e \<Rightarrow> (Inl (HTTPException 401 ''Invalid token''), st2)
                             | Inr rows \<Rightarrow> (Inr rows, st2)))))"

definition get_user_history ::
  "supabase_client \<Rightarrow> string option \<Rightarrow> state \<Rightarrow> (error + py_value) \<times> state" where
  "get_user_history supabase authorization st =
     (case authorization of
        None \<Rightarrow> (Inl (HTTPException 401 ''Unauthorized''), st)
      | Some a \<Rightarrow>
          if a = [] then (Inl (HTTPException 401 ''Unauthorized''), st)
          else
            (case (if CHR '' '' \<in> set a then subscript (str_split CHR '' '' a) 1 else Inr a) of
               Inl e \<Rightarrow> (Inl e, st)
             | Inr token \<Rightarrow>
                 (let st1 = issue (GetUser token) st
                  in case get_user supabase token of
                       Inl e \<Rightarrow> (Inl (HTTPException 401 ''Invalid token''), st1)
                     | Inr user_id \<Rightarrow>
                         (let st2 = issue (TableSelect ''history'' ''user_id'' user_id) st1
                          in case select_eq supabase ''history'' ''user_id'' user_id of
                               Inl e \<Rightarrow> (Inl (HTTPException 401 ''Invalid token''), st2)
                             | Inr rows \<Rightarrow> (Inr rows, st2)))))"

definition save_article ::
  "supabase_client \<Rightarrow> NewsArticle \<Rightarrow> string option \<Rightarrow> state \<Rightarrow> (error + py_dict) \<times> state" where
  "save_article supabase article authorization st =
     (case authorization of
        None \<Rightarrow> (Inl (HTTPException 401 ''Unauthorized''), st)
      | Some a \<Rightarrow>
          if a = [] then (Inl (HTTPException 401 ''Unauthorized''), st)
          else
            (case (if CHR '' '' \<in> set a then subscript (str_split CHR '' '' a) 1 else Inr a) of
               Inl e \<Rightarrow> (Inl e, st)
             | Inr token \<Rightarrow>
                 (let st1 = issue (GetUser token) st
                  in case get_user supabase token of
                       Inl e \<Rightarrow> (Inl (HTTPException 401 ''Invalid token''), st1)
                     | Inr user_id \<Rightarrow>
                         (let row = AList.update ''user_id'' (PyStr user_id) (article_dict article);
                              st2 = issue (TableInsert ''savednews'' row) st1
                          in case insert_row supabase ''savednews'' row of
                               Inl e \<Rightarrow>
                                 (Inl (HTTPException 500 (''Failed to save article: '' @ e)), st2)
                             | Inr result \<Rightarrow>
                                 (Inr [(''message'', PyStr ''Article saved'')], st2)))))"

definition add_to_history ::
  "supabase_client \<Rightarrow> NewsArticle \<Rightarrow> string option \<Rightarrow> state \<Rightarrow> (error + py_dict) \<times> state" where
  "add_to_history supabase article authorization st =
     (case authorization of
        None \<Rightarrow> (Inl (HTTPException 401 ''Unauthorized''), st)
      | Some a \<Rightarrow>
          if a = [] then (Inl (HTTPException 401 ''Unauthorized''), st)
          else
            (case (if CHR '' '' \<in> set a then subscript (str_split CHR '' '' a) 1 else Inr a) of
               Inl e \<Rightarrow> (Inl e, st)
             | Inr token \<Rightarrow>
                 (let st1 = issue (GetUser token) st
                  in case get_user supabase token of
                       Inl e \<Rightarrow> (Inl (HTTPException 401 ''Invalid token''), st1)
                     | Inr user_id \<Rightarrow>
                         (let row = AList.update ''user_id'' (PyStr user_id) (article_dict article);
                              st2 = issue (TableInsert ''history'' row) st1
                          in case insert_row supabase ''history'' row of
                               Inl e \<Rightarrow> (Inl (HTTPException 401 ''Invalid token''), st2)
                             | Inr result \<Rightarrow>
                                 (Inr [(''message'', PyStr ''Article added to history'')], st2)))))"

section \<open>The token rule in words\<close>

text \<open>
  \<open>after_first_space\<close> is the specification's "substring after the first space", and
  \<open>spec_token\<close> the rule it states with it. \<open>second_field\<close> stops that substring at its
  own first space; \<open>sent_token\<close> is the rule with \<open>second_field\<close> in its place.
\<close>

definition after_first_space :: "string \<Rightarrow> string" where
  "after_first_space a = drop 1 (dropWhile (\<lambda>c. c \<noteq> CHR '' '') a)"

definition spec_token :: "string \<Rightarrow> string" where
  "spec_token a = (if CHR '' '' \<in> set a then after_first_space a else a)"

definition second_field :: "string \<Rightarrow> string" where
  "second_field a = takeWhile (\<lambda>c. c \<noteq> CHR '' '') (after_first_space a)"

definition sent_token :: "string \<Rightarrow> string" where
  "sent_token a = (if CHR '' '' \<in> set a then second_field a else a)"

section \<open>Lower case in words\<close>

text \<open>
  The lower-case counterpart of a character by the table of the 26 letters: a capital
  letter becomes its small letter, any other character stays.
\<close>

definition ascii_letters :: "(char \<times> char) list" where
  "ascii_letters = zip ''ABCDEFGHIJKLMNOPQRSTUVWXYZ'' ''abcdefghijklmnopqrstuvwxyz''"

definition lowercase_letter :: "char \<Rightarrow> char" where
  "lowercase_letter c = (case map_of ascii_letters c of None \<Rightarrow> c | Some d \<Rightarrow> d)"

section \<open>Example environments\<close>

text \<open>Concrete collaborators, for evaluating the handlers on concrete requests.\<close>

definition upstream_down :: http_get where
  "upstream_down u ps = Inl ''connection refused''"

definition upstream_up :: http_get where
  "upstream_up u ps = Inr (PyDict [(''totalArticles'', PyInt 0), (''articles'', PyList [])])"

definition backend_up :: supabase_client where
  "backend_up =
     \<lparr>sign_up = (\<lambda>d. Inr \<lparr>user = PyStr ''u1'', session = PyStr ''s1''\<rparr>),
      sign_in_with_password = (\<lambda>d. Inr \<lparr>user = PyStr ''u1'', session = PyStr ''s1''\<rparr>),
      get_user = (\<lambda>t. Inr ''user-1''),
      select_eq = (\<lambda>t c v. Inr (PyList [])),
      insert_row = (\<lambda>t r. Inr PyNone)\<rparr>"

definition backend_down :: supabase_client where
  "backend_down =
     \<lparr>sign_up = (\<lambda>d. Inl ''User already registered''),
      sign_in_with_password = (\<lambda>d. Inl ''Email not confirmed''),
      get_user = (\<lambda>t. Inl ''invalid JWT''),
      select_eq = (\<lambda>t c v. Inl ''relation does not exist''),
      insert_row = (\<lambda>t r. Inl ''relation does not exist'')\<rparr>"

definition storage_down :: supabase_client where
  "storage_down =
     \<lparr>sign_up = (\<lambda>d. Inr \<lparr>user = PyStr ''u1'', session = PyStr ''s1''\<rparr>),
      sign_in_with_password = (\<lambda>d. Inr \<lparr>user = PyStr ''u1'', session = PyStr ''s1''\<rparr>),
      get_user = (\<lambda>t. Inr ''user-1''),
      select_eq = (\<lambda>t c v. Inl ''relation does not exist''),
      insert_row = (\<lambda>t r. Inl ''relation does not exist'')\<rparr>"

definition alice :: UserAuth where
  "alice = \<lparr>email = ''alice@example.org'', password = ''secret'', name = Some ''Alice''\<rparr>"

definition story :: NewsArticle where
  "story =
     \<lparr>title = ''Headline'', description = ''Summary'', content = None,
      url = ''https://example.org/a'', image_field = None,
      publishedAt = Some ''2024-01-01T00:00:00Z''\<rparr>"

text \<open>
  A stand-in for the Unicode tables that knows one letter: capital E with acute accent
  (bytes C3 89) becomes the small one (bytes C3 A9).
\<close>

definition e_acute_lower :: "string \<Rightarrow> string" where
  "e_acute_lower s = (if s = [CHR 0xC3, CHR 0x89] then [CHR 0xC3, CHR 0xA9] else s)"

definition illustrated_story :: NewsArticle where
  "illustrated_story =
     \<lparr>title = ''Launch'', description = ''A rocket'', content = Some ''Full text'',
      url = ''https://example.org/b'', image_field = Some ''https://example.org/b.png'',
      publishedAt = None\<rparr>"

section \<open>Properties of the key rotator\<close>

lemma get_gnews_api_key_step:
  assumes "cursor_ok st"
  shows "get_gnews_api_key st =
           (Inr (GNEWS_API_KEYS st ! nat (current_api_key_index st)),
            st\<lparr>current_api_key_index :=
                 (current_api_key_index st + 1) mod int (length (GNEWS_API_KEYS st))\<rparr>)"
proof -
  from assms have "GNEWS_API_KEYS st \<noteq> []"
    by (auto simp: cursor_ok_def)
  with assms show ?thesis
    by (simp add: get_gnews_api_key_def subscript_def cursor_ok_def)
qed

lemma get_gnews_api_key_keeps_cursor_ok:
  assumes "cursor_ok st"
  shows "cursor_ok (snd (get_gnews_api_key st))"
proof -
  let ?N = "int (length (GNEWS_API_KEYS st))"
  from assms have pos: "0 < ?N"
    unfolding cursor_ok_def by linarith
  have lo: "0 \<le> (current_api_key_index st + 1) mod ?N"
    using pos by (rule pos_mod_sign)
  have hi: "(current_api_key_index st + 1) mod ?N < ?N"
    using pos by (rule pos_mod_bound)
  show ?thesis
    using lo hi by (simp add: get_gnews_api_key_step [OF assms] cursor_ok_def)
qed

lemma call_rotator_Suc:
  "call_rotator (Suc n) st =
     (fst (get_gnews_api_key st) # fst (call_rotator n (snd (get_gnews_api_key st))),
      snd (call_rotator n (snd (get_gnews_api_key st))))"
  by (simp split: prod.splits)

lemma call_rotator_cursor_ok:
  "cursor_ok st \<Longrightarrow> cursor_ok (snd (call_rotator n st))"
proof (induction n arbitrary: st)
  case 0
  then show ?case by simp
next
  case (Suc n)
  from Suc.prems have "cursor_ok (snd (get_gnews_api_key st))"
    by (rule get_gnews_api_key_keeps_cursor_ok)
  then have "cursor_ok (snd (call_rotator n (snd (get_gnews_api_key st))))"
    by (rule Suc.IH)
  then show ?case
    by (simp only: call_rotator_Suc snd_conv)
qed

text \<open>
  From cursor \<open>c\<close>, the \<open>k\<close>-th of \<open>n\<close> calls returns the credential at position
  \<open>(c + k) mod N\<close>, and the cursor ends at \<open>(c + n) mod N\<close>.
\<close>

lemma call_rotator_from:
  assumes "GNEWS_API_KEYS st = keys" and "current_api_key_index st = int c"
    and "c < length keys"
  shows "call_rotator n st =
           (map (\<lambda>k. Inr (keys ! ((c + k) mod length keys))) [0..<n],
            st\<lparr>current_api_key_index := int ((c + n) mod length keys)\<rparr>)"
  using assms
proof (induction n arbitrary: st c)
  case 0
  then have "st\<lparr>current_api_key_index := int (c mod length keys)\<rparr> = st"
    by simp
  then show ?case by simp
next
  case (Suc n)
  let ?N = "length keys"
  let ?c1 = "Suc c mod ?N"
  let ?st1 = "st\<lparr>current_api_key_index := int ?c1\<rparr>"
  from Suc.prems have ok: "cursor_ok st"
    by (simp add: cursor_ok_def)
  have idx: "(current_api_key_index st + 1) mod int (length (GNEWS_API_KEYS st)) = int ?c1"
    using Suc.prems by (simp add: zmod_int add.commute)
  have step: "get_gnews_api_key st = (Inr (keys ! c), ?st1)"
    using get_gnews_api_key_step [OF ok] Suc.prems(1,2) unfolding idx by simp
  from Suc.prems(3) have "0 < ?N"
    by linarith
  then have c1: "?c1 < ?N"
    by (rule mod_less_divisor)
  have rest: "call_rotator n ?st1 =
      (map (\<lambda>k. Inr (keys ! ((?c1 + k) mod ?N))) [0..<n],
       ?st1\<lparr>current_api_key_index := int ((?c1 + n) mod ?N)\<rparr>)"
    using Suc.prems(1) c1 by (intro Suc.IH) simp_all
  have shift: "(?c1 + k) mod ?N = (c + Suc k) mod ?N" for k
    by (simp add: mod_add_left_eq)
  have results: "Inr (keys ! c) # map (\<lambda>k. Inr (keys ! ((c + Suc k) mod ?N))) [0..<n] =
                 map (\<lambda>k. Inr (keys ! ((c + k) mod ?N)) :: error + string) [0..<Suc n]"
  proof (rule nth_equalityI)
    show "length (Inr (keys ! c) # map (\<lambda>k. Inr (keys ! ((c + Suc k) mod ?N))) [0..<n]) =
          length (map (\<lambda>k. Inr (keys ! ((c + k) mod ?N)) :: error + string) [0..<Suc n])"
      by simp
  next
    fix i
    assume "i < length (Inr (keys ! c) #
              map (\<lambda>k. Inr (keys ! ((c + Suc k) mod ?N)) :: error + string) [0..<n])"
    then have i: "i < Suc n" by simp
    show "(Inr (keys ! c) # map (\<lambda>k. Inr (keys ! ((c + Suc k) mod ?N))) [0..<n]) ! i =
          map (\<lambda>k. Inr (keys ! ((c + k) mod ?N)) :: error + string) [0..<Suc n] ! i"
    proof (cases i)
      case 0
      then show ?thesis using Suc.prems(3) by (simp add: nth_map_upt del: upt_Suc)
    next
      case (Suc j)
      with i have "j < n" by simp
      with Suc show ?thesis
        by (simp add: nth_map_upt del: upt_Suc)
    qed
  qed
  have "call_rotator (Suc n) st =
          (Inr (keys ! c) # map (\<lambda>k. Inr (keys ! ((?c1 + k) mod ?N))) [0..<n],
           ?st1\<lparr>current_api_key_index := int ((?c1 + n) mod ?N)\<rparr>)"
    by (simp only: call_rotator_Suc step rest fst_conv snd_conv)
  then have "call_rotator (Suc n) st =
          (map (\<lambda>k. Inr (keys ! ((c + k) mod ?N))) [0..<Suc n],
           ?st1\<lparr>current_api_key_index := int ((c + Suc n) mod ?N)\<rparr>)"
    by (simp only: shift results)
  then show ?case
    by (simp del: upt_Suc)
qed

lemma two_rounds:
  "map (\<lambda>k. f (keys ! (k mod length keys))) [0..<2 * length keys] = map f (keys @ keys)"
proof (rule nth_equalityI)
  show "length (map (\<lambda>k. f (keys ! (k mod length keys))) [0..<2 * length keys]) =
        length (map f (keys @ keys))"
    by simp
next
  fix i
  assume "i < length (map (\<lambda>k. f (keys ! (k mod length keys))) [0..<2 * length keys])"
  then have i: "i < 2 * length keys" by simp
  show "map (\<lambda>k. f (keys ! (k mod length keys))) [0..<2 * length keys] ! i =
        map f (keys @ keys) ! i"
  proof (cases "i < length keys")
    case True
    then show ?thesis using i by (simp add: nth_append del: upt_Suc)
  next
    case False
    then have "i mod length keys = i - length keys"
      using i by (simp add: mod_if)
    then show ?thesis using i False by (simp add: nth_append del: upt_Suc)
  qed
qed

text \<open>
  C1. With a non-empty credential list of \<open>N\<close> keys and the cursor in \<open>[0, N)\<close>, a call
  of the rotator returns the credential at the cursor and moves the cursor to
  \<open>(index + 1) mod N\<close>, which is again in \<open>[0, N)\<close>; the cursor stays in range after any
  number of calls; and \<open>2N\<close> calls from a fresh start return the configured credentials
  in their order, twice over, so each one exactly twice, leaving the cursor at 0.
\<close>

theorem rotator_round_robin:
  assumes "keys \<noteq> []" and "GNEWS_API_KEYS st = keys" and "cursor_ok st"
  shows "get_gnews_api_key st =
           (Inr (keys ! nat (current_api_key_index st)),
            st\<lparr>current_api_key_index := (current_api_key_index st + 1) mod int (length keys)\<rparr>)
         \<and> cursor_ok (snd (get_gnews_api_key st))
         \<and> cursor_ok (snd (call_rotator n st))
         \<and> cursor_ok (snd (call_rotator n (fresh keys)))
         \<and> call_rotator (2 * length keys) (fresh keys) = (map Inr (keys @ keys), fresh keys)
         \<and> mset (fst (call_rotator (2 * length keys) (fresh keys)))
             = image_mset Inr (mset keys + mset keys)"
proof -
  have a: "get_gnews_api_key st =
           (Inr (keys ! nat (current_api_key_index st)),
            st\<lparr>current_api_key_index := (current_api_key_index st + 1) mod int (length keys)\<rparr>)"
    using get_gnews_api_key_step [OF assms(3)] assms(2) by simp
  have b: "cursor_ok (snd (get_gnews_api_key st))"
    using assms(3) by (rule get_gnews_api_key_keeps_cursor_ok)
  have c: "cursor_ok (snd (call_rotator n st))"
    using assms(3) by (rule call_rotator_cursor_ok)
  have fresh_ok: "cursor_ok (fresh keys)"
    using assms(1) by (simp add: cursor_ok_def fresh_def)
  then have d: "cursor_ok (snd (call_rotator n (fresh keys)))"
    by (rule call_rotator_cursor_ok)
  have "call_rotator (2 * length keys) (fresh keys) =
          (map (\<lambda>k. Inr (keys ! ((0 + k) mod length keys))) [0..<2 * length keys],
           (fresh keys)\<lparr>current_api_key_index := int ((0 + 2 * length keys) mod length keys)\<rparr>)"
    using assms(1) by (intro call_rotator_from) (simp_all add: fresh_def)
  then have e: "call_rotator (2 * length keys) (fresh keys) = (map Inr (keys @ keys), fresh keys)"
    by (simp add: two_rounds [where f = Inr] fresh_def)
  have f: "mset (fst (call_rotator (2 * length keys) (fresh keys)))
             = image_mset Inr (mset keys + mset keys)"
    unfolding e by simp
  from a b c d e f show ?thesis by blast
qed

theorem rotator_round_robin_witness:
  "call_rotator 6 (fresh [''k1'', ''k2'', ''k3'']) =
     ([Inr ''k1'', Inr ''k2'', Inr ''k3'', Inr ''k1'', Inr ''k2'', Inr ''k3''],
      fresh [''k1'', ''k2'', ''k3''])
   \<and> get_gnews_api_key ((fresh [''k1'', ''k2'', ''k3''])\<lparr>current_api_key_index := 2\<rparr>) =
       (Inr ''k3'', fresh [''k1'', ''k2'', ''k3''])"
proof -
  let ?keys = "[''k1'', ''k2'', ''k3'']"
  let ?st = "(fresh ?keys)\<lparr>current_api_key_index := 2\<rparr>"
  have h1: "?keys \<noteq> []" by simp
  have h2: "GNEWS_API_KEYS ?st = ?keys" by (simp add: fresh_def)
  have h3: "cursor_ok ?st" by (simp add: cursor_ok_def fresh_def)
  show ?thesis
    using rotator_round_robin [OF h1 h2 h3, of 0] by (simp add: fresh_def)
qed

text \<open>
  C2. When the credential list is empty, a call of the rotator raises the HTTP 500
  exception, returns no credential, and leaves the state, the cursor included, as it was.
\<close>

theorem rotator_empty_fails:
  assumes "GNEWS_API_KEYS st = []"
  shows "get_gnews_api_key st =
           (Inl (HTTPException 500 ''GNews API keys not configured.''), st)
         \<and> (\<forall>key. fst (get_gnews_api_key st) \<noteq> Inr key)
         \<and> current_api_key_index (snd (get_gnews_api_key st)) = current_api_key_index st"
  using assms by (simp add: get_gnews_api_key_def)

theorem rotator_empty_fails_witness:
  "get_gnews_api_key (fresh []) =
     (Inl (HTTPException 500 ''GNews API keys not configured.''), fresh [])"
proof -
  have h: "GNEWS_API_KEYS (fresh []) = []" by (simp add: fresh_def)
  show ?thesis
    using rotator_empty_fails [OF h] by simp
qed

section \<open>Properties of the fetch helper\<close>

lemma fetch_gnews_run:
  assumes "cursor_ok st"
  shows "fetch_gnews requests_get endpoint params st =
           (let key = GNEWS_API_KEYS st ! nat (current_api_key_index st);
                params1 = AList.update ''apikey'' (PyStr key) params;
                u = ''https://gnews.io/api/v4/'' @ endpoint;
                st2 = st\<lparr>current_api_key_index :=
                           (current_api_key_index st + 1) mod int (length (GNEWS_API_KEYS st)),
                         calls := calls st @ [HttpGet u params1]\<rparr>
            in (case requests_get u params1 of
                  Inl e \<Rightarrow> Inl (HTTPException 400 (''Error fetching from GNews: '' @ e))
                | Inr body \<Rightarrow> Inr body,
                params1, st2))"
  by (simp add: fetch_gnews_def get_gnews_api_key_step [OF assms] issue_def Let_def
      split: sum.splits)

lemma fetch_gnews_no_keys:
  assumes "GNEWS_API_KEYS st = []"
  shows "fetch_gnews requests_get endpoint params st =
           (Inl (HTTPException 500 ''GNews API keys not configured.''), params, st)"
  using assms by (simp add: fetch_gnews_def get_gnews_api_key_def)

text \<open>
  C10. With the cursor in range of a non-empty credential list, a call of the fetch
  helper, whatever the upstream request does, moves the cursor by one rotation step,
  leaves the credential list alone, issues one GET, and leaves the caller's dictionary
  as it was but for the key \<open>apikey\<close>, which now holds the credential.
\<close>

theorem fetch_gnews_effects:
  assumes "cursor_ok st"
  shows "current_api_key_index (snd (snd (fetch_gnews requests_get endpoint params st))) =
           (current_api_key_index st + 1) mod int (length (GNEWS_API_KEYS st))
         \<and> GNEWS_API_KEYS (snd (snd (fetch_gnews requests_get endpoint params st))) =
             GNEWS_API_KEYS st
         \<and> fst (snd (fetch_gnews requests_get endpoint params st)) =
             AList.update ''apikey''
               (PyStr (GNEWS_API_KEYS st ! nat (current_api_key_index st))) params
         \<and> map_of (fst (snd (fetch_gnews requests_get endpoint params st))) ''apikey'' =
             Some (PyStr (GNEWS_API_KEYS st ! nat (current_api_key_index st)))
         \<and> (\<forall>k. k \<noteq> ''apikey'' \<longrightarrow>
               map_of (fst (snd (fetch_gnews requests_get endpoint params st))) k =
               map_of params k)
         \<and> calls (snd (snd (fetch_gnews requests_get endpoint params st))) =
             calls st @
             [HttpGet (''https://gnews.io/api/v4/'' @ endpoint)
                (fst (snd (fetch_gnews requests_get endpoint params st)))]"
  by (simp add: fetch_gnews_run [OF assms] Let_def update_conv')

theorem fetch_gnews_effects_witness:
  "fetch_gnews upstream_down ''search'' [(''q'', PyStr ''rust'')] (fresh [''k1'', ''k2'']) =
     (Inl (HTTPException 400 ''Error fetching from GNews: connection refused''),
      [(''q'', PyStr ''rust''), (''apikey'', PyStr ''k1'')],
      \<lparr>GNEWS_API_KEYS = [''k1'', ''k2''], current_api_key_index = 1,
       calls = [HttpGet ''https://gnews.io/api/v4/search''
                  [(''q'', PyStr ''rust''), (''apikey'', PyStr ''k1'')]]\<rparr>)"
proof -
  have h: "cursor_ok (fresh [''k1'', ''k2''])"
    by (simp add: cursor_ok_def fresh_def)
  have run: "fetch_gnews upstream_down ''search'' [(''q'', PyStr ''rust'')] (fresh [''k1'', ''k2'']) =
       (Inl (HTTPException 400 ''Error fetching from GNews: connection refused''),
        fst (snd (fetch_gnews upstream_down ''search'' [(''q'', PyStr ''rust'')]
                   (fresh [''k1'', ''k2'']))),
        snd (snd (fetch_gnews upstream_down ''search'' [(''q'', PyStr ''rust'')]
                   (fresh [''k1'', ''k2'']))))"
    by (simp add: fetch_gnews_run [OF h] Let_def upstream_down_def)
  have st: "snd (snd (fetch_gnews upstream_down ''search'' [(''q'', PyStr ''rust'')]
                   (fresh [''k1'', ''k2'']))) =
            \<lparr>GNEWS_API_KEYS = [''k1'', ''k2''], current_api_key_index = 1,
             calls = [HttpGet ''https://gnews.io/api/v4/search''
                        [(''q'', PyStr ''rust''), (''apikey'', PyStr ''k1'')]]\<rparr>"
    using fetch_gnews_effects [OF h, of upstream_down "''search''" "[(''q'', PyStr ''rust'')]"]
    by (simp add: fresh_def)
  have ps: "fst (snd (fetch_gnews upstream_down ''search'' [(''q'', PyStr ''rust'')]
                   (fresh [''k1'', ''k2'']))) =
            [(''q'', PyStr ''rust''), (''apikey'', PyStr ''k1'')]"
    using fetch_gnews_effects [OF h, of upstream_down "''search''" "[(''q'', PyStr ''rust'')]"]
    by (simp add: fresh_def)
  show ?thesis
    by (subst run) (simp only: st ps)
qed

text \<open>
  C5 as stated fails: the exception raised for a failed upstream request holds the status
  400 and one text, the fixed prefix followed by the failure description. Requests to two
  endpoints with different parameters that fail the same way raise the same exception, so
  it carries neither the endpoint nor the parameters.
\<close>

theorem upstream_error_same_for_all_requests:
  "fst (fetch_gnews upstream_down ''search'' [(''q'', PyStr ''rust'')] (fresh [''k1''])) =
     Inl (HTTPException 400 ''Error fetching from GNews: connection refused'')
   \<and> fst (fetch_gnews upstream_down ''top-headlines'' [(''lang'', PyStr ''en'')] (fresh [''k1''])) =
     Inl (HTTPException 400 ''Error fetching from GNews: connection refused'')"
proof -
  have h: "cursor_ok (fresh [''k1''])"
    by (simp add: cursor_ok_def fresh_def)
  show ?thesis
    by (simp add: fetch_gnews_run [OF h] Let_def upstream_down_def)
qed

text \<open>
  C5, amended. With the cursor in range of a non-empty credential list, when the upstream
  request (to the base address plus the endpoint, with the credential added to the
  parameters) fails with description \<open>e\<close>, the fetch helper raises \<open>HTTPException\<close>
  with status 400 and detail \<open>Error fetching from GNews: e\<close>, and nothing else.
\<close>

theorem fetch_gnews_upstream_failure:
  assumes "cursor_ok st"
    and "requests_get (''https://gnews.io/api/v4/'' @ endpoint)
           (AList.update ''apikey''
              (PyStr (GNEWS_API_KEYS st ! nat (current_api_key_index st))) params) = Inl e"
  shows "fst (fetch_gnews requests_get endpoint params st) =
           Inl (HTTPException 400 (''Error fetching from GNews: '' @ e))"
  using assms(2) by (simp add: fetch_gnews_run [OF assms(1)] Let_def)

theorem fetch_gnews_upstream_failure_witness:
  "fst (fetch_gnews upstream_down ''search'' [(''q'', PyStr ''rust'')] (fresh [''k1'', ''k2''])) =
     Inl (HTTPException 400 ''Error fetching from GNews: connection refused'')"
proof -
  have h1: "cursor_ok (fresh [''k1'', ''k2''])"
    by (simp add: cursor_ok_def fresh_def)
  have h2: "upstream_down (''https://gnews.io/api/v4/'' @ ''search'')
              (AList.update ''apikey''
                 (PyStr (GNEWS_API_KEYS (fresh [''k1'', ''k2'']) !
                         nat (current_api_key_index (fresh [''k1'', ''k2'']))))
                 [(''q'', PyStr ''rust'')]) = Inl ''connection refused''"
    by (simp add: upstream_down_def)
  show ?thesis
    using fetch_gnews_upstream_failure
            [where requests_get = upstream_down and e = "''connection refused''", OF h1 h2]
    by simp
qed

section \<open>Properties of the news query handlers\<close>

text \<open>
  C6 as stated fails for a missing \<open>q\<close>: a request to the search route that gives no \<open>q\<close>
  is answered with the validation error, status 422, not with status 400.
\<close>

theorem missing_q_is_answered_422:
  "search_news_route upstream_up None None None (fresh [''k1'']) =
     (Inl RequestValidationError, fresh [''k1''])
   \<and> http_status RequestValidationError = 422"
  by (simp add: search_news_route_def http_status_def)

text \<open>
  C6, amended. A search whose \<open>q\<close> is empty raises the HTTP 400 exception and returns the
  state as it was: the cursor has not moved and no call has been issued. A request that
  gives no \<open>q\<close> does not reach the function: it is answered with status 422, the state
  again as it was. A request that gives \<open>q\<close> runs the function with the defaults
  \<open>page = 1\<close> and \<open>lang = en\<close> for what it leaves out. A search with a non-empty \<open>q\<close> is
  the fetch helper on endpoint \<open>search\<close> with the parameters \<open>q\<close>, \<open>lang\<close>, \<open>max = 9\<close>,
  \<open>page\<close> and \<open>sortby = publishedAt\<close>; with the cursor in range this issues exactly one
  GET, to the search address with those parameters and the credential.
\<close>

theorem search_news_requires_q:
  "search_news requests_get [] page lang st =
     (Inl (HTTPException 400 ''Search query parameter 'q' is required.''), st)
   \<and> http_status (HTTPException 400 ''Search query parameter 'q' is required.'') = 400
   \<and> search_news_route requests_get None page_given lang_given st =
       (Inl RequestValidationError, st)
   \<and> http_status RequestValidationError = 422
   \<and> search_news_route requests_get (Some qs) page_given lang_given st =
       search_news requests_get qs
         (case page_given of None \<Rightarrow> 1 | Some p \<Rightarrow> p)
         (case lang_given of None \<Rightarrow> ''en'' | Some l \<Rightarrow> l) st
   \<and> (qs \<noteq> [] \<longrightarrow>
        search_news requests_get qs page lang st =
          (case fetch_gnews requests_get ''search''
                  [(''q'', PyStr qs), (''lang'', PyStr lang), (''max'', PyInt 9),
                   (''page'', PyInt page), (''sortby'', PyStr ''publishedAt'')] st of
             (r, params1, st1) \<Rightarrow> (r, st1)))
   \<and> (qs \<noteq> [] \<and> cursor_ok st \<longrightarrow>
        calls (snd (search_news requests_get qs page lang st)) =
          calls st @
          [HttpGet ''https://gnews.io/api/v4/search''
             [(''q'', PyStr qs), (''lang'', PyStr lang), (''max'', PyInt 9),
              (''page'', PyInt page), (''sortby'', PyStr ''publishedAt''),
              (''apikey'', PyStr (GNEWS_API_KEYS st ! nat (current_api_key_index st)))]])"
proof -
  have empty: "search_news requests_get [] page lang st =
     (Inl (HTTPException 400 ''Search query parameter 'q' is required.''), st)"
    by (simp add: search_news_def)
  have s400: "http_status (HTTPException 400 ''Search query parameter 'q' is required.'') = 400"
    by (simp add: http_status_def)
  have missing: "search_news_route requests_get None page_given lang_given st =
       (Inl RequestValidationError, st)"
    by (simp add: search_news_route_def)
  have s422: "http_status RequestValidationError = 422"
    by (simp add: http_status_def)
  have given: "search_news_route requests_get (Some qs) page_given lang_given st =
       search_news requests_get qs
         (case page_given of None \<Rightarrow> 1 | Some p \<Rightarrow> p)
         (case lang_given of None \<Rightarrow> ''en'' | Some l \<Rightarrow> l) st"
    by (simp add: search_news_route_def)
  have delegates: "qs \<noteq> [] \<longrightarrow>
        search_news requests_get qs page lang st =
          (case fetch_gnews requests_get ''search''
                  [(''q'', PyStr qs), (''lang'', PyStr lang), (''max'', PyInt 9),
                   (''page'', PyInt page), (''sortby'', PyStr ''publishedAt'')] st of
             (r, params1, st1) \<Rightarrow> (r, st1))"
    by (simp add: search_news_def)
  have sends: "qs \<noteq> [] \<and> cursor_ok st \<longrightarrow>
        calls (snd (search_news requests_get qs page lang st)) =
          calls st @
          [HttpGet ''https://gnews.io/api/v4/search''
             [(''q'', PyStr qs), (''lang'', PyStr lang), (''max'', PyInt 9),
              (''page'', PyInt page), (''sortby'', PyStr ''publishedAt''),
              (''apikey'', PyStr (GNEWS_API_KEYS st ! nat (current_api_key_index st)))]]"
  proof
    assume "qs \<noteq> [] \<and> cursor_ok st"
    then have qs: "qs \<noteq> []" and ok: "cursor_ok st"
      by simp_all
    show "calls (snd (search_news requests_get qs page lang st)) =
          calls st @
          [HttpGet ''https://gnews.io/api/v4/search''
             [(''q'', PyStr qs), (''lang'', PyStr lang), (''max'', PyInt 9),
              (''page'', PyInt page), (''sortby'', PyStr ''publishedAt''),
              (''apikey'', PyStr (GNEWS_API_KEYS st ! nat (current_api_key_index st)))]]"
      using qs by (simp add: search_news_def fetch_gnews_run [OF ok] Let_def)
  qed
  from empty s400 missing s422 given delegates sends show ?thesis
    by blast
qed

theorem search_news_requires_q_witness:
  "search_news_route upstream_up (Some []) None None (fresh [''k1'', ''k2'']) =
     (Inl (HTTPException 400 ''Search query parameter 'q' is required.''), fresh [''k1'', ''k2''])
   \<and> search_news_route upstream_up None (Some 2) None (fresh [''k1'', ''k2'']) =
     (Inl RequestValidationError, fresh [''k1'', ''k2''])
   \<and> calls (snd (search_news_route upstream_up (Some ''rust'') (Some 2) None
                    (fresh [''k1'', ''k2'']))) =
       [HttpGet ''https://gnews.io/api/v4/search''
          [(''q'', PyStr ''rust''), (''lang'', PyStr ''en''), (''max'', PyInt 9),
           (''page'', PyInt 2), (''sortby'', PyStr ''publishedAt''),
           (''apikey'', PyStr ''k1'')]]"
proof -
  let ?st = "fresh [''k1'', ''k2'']"
  have ok: "cursor_ok ?st"
    by (simp add: cursor_ok_def fresh_def)
  have ne: "''rust'' \<noteq> []"
    by simp
  note empty_q = search_news_requires_q [of upstream_up 1 "''en''" ?st None None "[]"]
  note some_q = search_news_requires_q [of upstream_up 2 "''en''" ?st "Some 2" None "''rust''"]
  have a: "search_news_route upstream_up (Some []) None None ?st =
     (Inl (HTTPException 400 ''Search query parameter 'q' is required.''), ?st)"
    using empty_q by simp
  have b: "search_news_route upstream_up None (Some 2) None ?st =
     (Inl RequestValidationError, ?st)"
    using some_q by blast
  have route: "search_news_route upstream_up (Some ''rust'') (Some 2) None ?st =
               search_news upstream_up ''rust'' 2 ''en'' ?st"
    using some_q by simp
  have "calls (snd (search_news upstream_up ''rust'' 2 ''en'' ?st)) =
          calls ?st @
          [HttpGet ''https://gnews.io/api/v4/search''
             [(''q'', PyStr ''rust''), (''lang'', PyStr ''en''), (''max'', PyInt 9),
              (''page'', PyInt 2), (''sortby'', PyStr ''publishedAt''),
              (''apikey'', PyStr (GNEWS_API_KEYS ?st ! nat (current_api_key_index ?st)))]]"
    using some_q ok ne by blast
  then have c: "calls (snd (search_news_route upstream_up (Some ''rust'') (Some 2) None ?st)) =
       [HttpGet ''https://gnews.io/api/v4/search''
          [(''q'', PyStr ''rust''), (''lang'', PyStr ''en''), (''max'', PyInt 9),
           (''page'', PyInt 2), (''sortby'', PyStr ''publishedAt''),
           (''apikey'', PyStr ''k1'')]]"
    unfolding route by (simp add: fresh_def)
  from a b c show ?thesis by simp
qed

lemma ascii_lower_by_table:
  "\<forall>c::char. ascii_lower c = lowercase_letter c"
  by code_simp

lemma lower_ascii:
  assumes "\<forall>c\<in>set s. (of_char c :: nat) < 128"
  shows "lower unicode_lower s = map lowercase_letter s"
proof -
  from assms have "is_ascii s"
    by (simp add: is_ascii_def list_all_iff)
  then show ?thesis
    using ascii_lower_by_table by (simp add: lower_def)
qed

lemma lower_beyond_ascii:
  assumes "\<exists>c\<in>set s. 128 \<le> (of_char c :: nat)"
  shows "lower unicode_lower s = unicode_lower s"
proof -
  from assms have "\<not> is_ascii s"
    by (auto simp: is_ascii_def list_all_iff not_less)
  then show ?thesis
    by (simp add: lower_def)
qed

lemma lower_Technology:
  "lower unicode_lower ''Technology'' = ''technology''"
proof -
  have "\<forall>c\<in>set ''Technology''. (of_char c :: nat) < 128"
    by simp
  then have "lower unicode_lower ''Technology'' = map lowercase_letter ''Technology''"
    by (rule lower_ascii)
  also have "\<dots> = ''technology''"
    by (simp add: lowercase_letter_def ascii_letters_def)
  finally show ?thesis .
qed

text \<open>
  C7. For every category string the by-category handler is the fetch helper on endpoint
  \<open>top-headlines\<close> with the parameters \<open>topic\<close>, \<open>lang\<close>, \<open>max = 9\<close> and \<open>page\<close>; no
  category is refused, and with the cursor in range the one GET issued carries exactly
  these parameters and the credential. The topic is the category in lower case: for a
  category of ASCII characters only, each capital letter is replaced by its small letter
  and every other character is kept; for any other category it is what Python's Unicode
  lower-casing makes of the whole category. \<open>Technology\<close> is sent as \<open>technology\<close>.
\<close>

theorem by_category_sends_lowercased_topic:
  "get_news_by_category requests_get unicode_lower category_name page lang st =
     (case fetch_gnews requests_get ''top-headlines''
             [(''topic'', PyStr (lower unicode_lower category_name)), (''lang'', PyStr lang),
              (''max'', PyInt 9), (''page'', PyInt page)] st of
        (r, params1, st1) \<Rightarrow> (r, st1))
   \<and> (cursor_ok st \<longrightarrow>
        calls (snd (get_news_by_category requests_get unicode_lower category_name page lang st)) =
          calls st @
          [HttpGet ''https://gnews.io/api/v4/top-headlines''
             [(''topic'', PyStr (lower unicode_lower category_name)), (''lang'', PyStr lang),
              (''max'', PyInt 9), (''page'', PyInt page),
              (''apikey'', PyStr (GNEWS_API_KEYS st ! nat (current_api_key_index st)))]])
   \<and> ((\<forall>c\<in>set category_name. (of_char c :: nat) < 128) \<longrightarrow>
        lower unicode_lower category_name = map lowercase_letter category_name)
   \<and> ((\<exists>c\<in>set category_name. 128 \<le> (of_char c :: nat)) \<longrightarrow>
        lower unicode_lower category_name = unicode_lower category_name)
   \<and> lower unicode_lower ''Technology'' = ''technology''"
proof -
  have delegates: "get_news_by_category requests_get unicode_lower category_name page lang st =
     (case fetch_gnews requests_get ''top-headlines''
             [(''topic'', PyStr (lower unicode_lower category_name)), (''lang'', PyStr lang),
              (''max'', PyInt 9), (''page'', PyInt page)] st of
        (r, params1, st1) \<Rightarrow> (r, st1))"
    by (simp add: get_news_by_category_def)
  have sends: "cursor_ok st \<longrightarrow>
        calls (snd (get_news_by_category requests_get unicode_lower category_name page lang st)) =
          calls st @
          [HttpGet ''https://gnews.io/api/v4/top-headlines''
             [(''topic'', PyStr (lower unicode_lower category_name)), (''lang'', PyStr lang),
              (''max'', PyInt 9), (''page'', PyInt page),
              (''apikey'', PyStr (GNEWS_API_KEYS st ! nat (current_api_key_index st)))]]"
  proof
    assume ok: "cursor_ok st"
    show "calls (snd (get_news_by_category requests_get unicode_lower category_name page lang st)) =
          calls st @
          [HttpGet ''https://gnews.io/api/v4/top-headlines''
             [(''topic'', PyStr (lower unicode_lower category_name)), (''lang'', PyStr lang),
              (''max'', PyInt 9), (''page'', PyInt page),
              (''apikey'', PyStr (GNEWS_API_KEYS st ! nat (current_api_key_index st)))]]"
      by (simp add: get_news_by_category_def fetch_gnews_run [OF ok] Let_def)
  qed
  have ascii: "(\<forall>c\<in>set category_name. (of_char c :: nat) < 128) \<longrightarrow>
        lower unicode_lower category_name = map lowercase_letter category_name"
    using lower_ascii by blast
  have beyond: "(\<exists>c\<in>set category_name. 128 \<le> (of_char c :: nat)) \<longrightarrow>
        lower unicode_lower category_name = unicode_lower category_name"
    using lower_beyond_ascii by blast
  from delegates sends ascii beyond lower_Technology show ?thesis
    by blast
qed

theorem by_category_sends_lowercased_topic_witness:
  "calls (snd (get_news_by_category upstream_up e_acute_lower ''Technology'' 1 ''en''
                 (fresh [''k1'', ''k2'']))) =
     [HttpGet ''https://gnews.io/api/v4/top-headlines''
        [(''topic'', PyStr ''technology''), (''lang'', PyStr ''en''),
         (''max'', PyInt 9), (''page'', PyInt 1), (''apikey'', PyStr ''k1'')]]
   \<and> calls (snd (get_news_by_category upstream_up e_acute_lower ''WORLD news-24'' 1 ''en''
                   (fresh [''k1'', ''k2'']))) =
     [HttpGet ''https://gnews.io/api/v4/top-headlines''
        [(''topic'', PyStr ''world news-24''), (''lang'', PyStr ''en''),
         (''max'', PyInt 9), (''page'', PyInt 1), (''apikey'', PyStr ''k1'')]]
   \<and> calls (snd (get_news_by_category upstream_up e_acute_lower [CHR 0xC3, CHR 0x89] 1 ''en''
                   (fresh [''k1'', ''k2'']))) =
     [HttpGet ''https://gnews.io/api/v4/top-headlines''
        [(''topic'', PyStr [CHR 0xC3, CHR 0xA9]), (''lang'', PyStr ''en''),
         (''max'', PyInt 9), (''page'', PyInt 1), (''apikey'', PyStr ''k1'')]]"
proof -
  let ?st = "fresh [''k1'', ''k2'']"
  have ok: "cursor_ok ?st"
    by (simp add: cursor_ok_def fresh_def)
  note tech = by_category_sends_lowercased_topic
                [of upstream_up e_acute_lower "''Technology''" 1 "''en''" ?st]
  note world = by_category_sends_lowercased_topic
                [of upstream_up e_acute_lower "''WORLD news-24''" 1 "''en''" ?st]
  note accent = by_category_sends_lowercased_topic
                [of upstream_up e_acute_lower "[CHR 0xC3, CHR 0x89]" 1 "''en''" ?st]
  have t1: "lower e_acute_lower ''Technology'' = ''technology''"
    using tech by blast
  have "\<forall>c\<in>set ''WORLD news-24''. (of_char c :: nat) < 128"
    by simp
  with world have "lower e_acute_lower ''WORLD news-24'' = map lowercase_letter ''WORLD news-24''"
    by blast
  then have t2: "lower e_acute_lower ''WORLD news-24'' = ''world news-24''"
    by (simp add: lowercase_letter_def ascii_letters_def)
  have "\<exists>c\<in>set [CHR 0xC3, CHR 0x89]. 128 \<le> (of_char c :: nat)"
    by simp
  with accent have "lower e_acute_lower [CHR 0xC3, CHR 0x89] = e_acute_lower [CHR 0xC3, CHR 0x89]"
    by blast
  then have t3: "lower e_acute_lower [CHR 0xC3, CHR 0x89] = [CHR 0xC3, CHR 0xA9]"
    by (simp add: e_acute_lower_def)
  have a: "calls (snd (get_news_by_category upstream_up e_acute_lower ''Technology'' 1 ''en'' ?st)) =
     [HttpGet ''https://gnews.io/api/v4/top-headlines''
        [(''topic'', PyStr ''technology''), (''lang'', PyStr ''en''),
         (''max'', PyInt 9), (''page'', PyInt 1), (''apikey'', PyStr ''k1'')]]"
  proof -
    have "calls (snd (get_news_by_category upstream_up e_acute_lower ''Technology'' 1 ''en'' ?st)) =
          calls ?st @
          [HttpGet ''https://gnews.io/api/v4/top-headlines''
             [(''topic'', PyStr (lower e_acute_lower ''Technology'')), (''lang'', PyStr ''en''),
              (''max'', PyInt 9), (''page'', PyInt 1),
              (''apikey'', PyStr (GNEWS_API_KEYS ?st ! nat (current_api_key_index ?st)))]]"
      using tech ok by blast
    then show ?thesis
      unfolding t1 by (simp add: fresh_def)
  qed
  have b: "calls (snd (get_news_by_category upstream_up e_acute_lower ''WORLD news-24'' 1 ''en'' ?st)) =
     [HttpGet ''https://gnews.io/api/v4/top-headlines''
        [(''topic'', PyStr ''world news-24''), (''lang'', PyStr ''en''),
         (''max'', PyInt 9), (''page'', PyInt 1), (''apikey'', PyStr ''k1'')]]"
  proof -
    have "calls (snd (get_news_by_category upstream_up e_acute_lower ''WORLD news-24'' 1 ''en'' ?st)) =
          calls ?st @
          [HttpGet ''https://gnews.io/api/v4/top-headlines''
             [(''topic'', PyStr (lower e_acute_lower ''WORLD news-24'')), (''lang'', PyStr ''en''),
              (''max'', PyInt 9), (''page'', PyInt 1),
              (''apikey'', PyStr (GNEWS_API_KEYS ?st ! nat (current_api_key_index ?st)))]]"
      using world ok by blast
    then show ?thesis
      unfolding t2 by (simp add: fresh_def)
  qed
  have c: "calls (snd (get_news_by_category upstream_up e_acute_lower [CHR 0xC3, CHR 0x89] 1 ''en'' ?st)) =
     [HttpGet ''https://gnews.io/api/v4/top-headlines''
        [(''topic'', PyStr [CHR 0xC3, CHR 0xA9]), (''lang'', PyStr ''en''),
         (''max'', PyInt 9), (''page'', PyInt 1), (''apikey'', PyStr ''k1'')]]"
  proof -
    have "calls (snd (get_news_by_category upstream_up e_acute_lower [CHR 0xC3, CHR 0x89] 1 ''en'' ?st)) =
          calls ?st @
          [HttpGet ''https://gnews.io/api/v4/top-headlines''
             [(''topic'', PyStr (lower e_acute_lower [CHR 0xC3, CHR 0x89])), (''lang'', PyStr ''en''),
              (''max'', PyInt 9), (''page'', PyInt 1),
              (''apikey'', PyStr (GNEWS_API_KEYS ?st ! nat (current_api_key_index ?st)))]]"
      using accent ok by blast
    then show ?thesis
      unfolding t3 by (simp add: fresh_def)
  qed
  from a b c show ?thesis by simp
qed

section \<open>Properties of the user-data handlers\<close>

lemma str_split_unfold:
  "str_split sep s =
     takeWhile (\<lambda>c. c \<noteq> sep) s #
     (if sep \<in> set s then str_split sep (drop 1 (dropWhile (\<lambda>c. c \<noteq> sep) s)) else [])"
proof (induction s)
  case Nil
  show ?case by simp
next
  case (Cons c cs)
  show ?case
  proof (cases "c = sep")
    case True
    then show ?thesis by simp
  next
    case False
    then show ?thesis
      by (subst str_split.simps) (subst Cons.IH, simp)
  qed
qed

lemma str_split_second:
  assumes "sep \<in> set s"
  shows "\<exists>rest. str_split sep s =
           takeWhile (\<lambda>c. c \<noteq> sep) s #
           takeWhile (\<lambda>c. c \<noteq> sep) (drop 1 (dropWhile (\<lambda>c. c \<noteq> sep) s)) # rest"
proof -
  let ?t = "drop 1 (dropWhile (\<lambda>c. c \<noteq> sep) s)"
  have "str_split sep s = takeWhile (\<lambda>c. c \<noteq> sep) s # str_split sep ?t"
    using assms by (subst str_split_unfold) simp
  also have "str_split sep ?t =
      takeWhile (\<lambda>c. c \<noteq> sep) ?t #
      (if sep \<in> set ?t then str_split sep (drop 1 (dropWhile (\<lambda>c. c \<noteq> sep) ?t)) else [])"
    by (rule str_split_unfold)
  finally show ?thesis by blast
qed

lemma token_expression:
  "(if CHR '' '' \<in> set a then subscript (str_split CHR '' '' a) 1 else Inr a) =
     Inr (sent_token a)"
proof (cases "CHR '' '' \<in> set a")
  case True
  from str_split_second [OF True] obtain rest where
    "str_split CHR '' '' a =
       takeWhile (\<lambda>c. c \<noteq> CHR '' '') a # second_field a # rest"
    unfolding second_field_def after_first_space_def by blast
  then have "subscript (str_split CHR '' '' a) 1 = Inr (second_field a)"
    by (simp add: subscript_def)
  with True show ?thesis
    by (simp add: sent_token_def)
next
  case False
  then show ?thesis
    by (simp add: sent_token_def)
qed

lemma get_saved_news_run:
  assumes "a \<noteq> []"
  shows "get_saved_news supabase (Some a) st =
           (case get_user supabase (sent_token a) of
              Inl e \<Rightarrow> (Inl (HTTPException 401 ''Invalid token''), issue (GetUser (sent_token a)) st)
            | Inr user_id \<Rightarrow>
                (case select_eq supabase ''savednews'' ''user_id'' user_id of
                   Inl e \<Rightarrow> Inl (HTTPException 401 ''Invalid token'')
                 | Inr rows \<Rightarrow> Inr rows,
                 issue (TableSelect ''savednews'' ''user_id'' user_id)
                   (issue (GetUser (sent_token a)) st)))"
  using assms
  by (simp add: get_saved_news_def token_expression Let_def split: sum.splits)

lemma get_user_history_run:
  assumes "a \<noteq> []"
  shows "get_user_history supabase (Some a) st =
           (case get_user supabase (sent_token a) of
              Inl e \<Rightarrow> (Inl (HTTPException 401 ''Invalid token''), issue (GetUser (sent_token a)) st)
            | Inr user_id \<Rightarrow>
                (case select_eq supabase ''history'' ''user_id'' user_id of
                   Inl e \<Rightarrow> Inl (HTTPException 401 ''Invalid token'')
                 | Inr rows \<Rightarrow> Inr rows,
                 issue (TableSelect ''history'' ''user_id'' user_id)
                   (issue (GetUser (sent_token a)) st)))"
  using assms
  by (simp add: get_user_history_def token_expression Let_def split: sum.splits)

lemma owner_appended:
  "AList.update ''user_id'' v (article_dict article) = article_dict article @ [(''user_id'', v)]"
  by (simp add: article_dict_def)

lemma save_article_run:
  assumes "a \<noteq> []"
  shows "save_article supabase article (Some a) st =
           (case get_user supabase (sent_token a) of
              Inl e \<Rightarrow> (Inl (HTTPException 401 ''Invalid token''), issue (GetUser (sent_token a)) st)
            | Inr user_id \<Rightarrow>
                (case insert_row supabase ''savednews''
                        (article_dict article @ [(''user_id'', PyStr user_id)]) of
                   Inl e \<Rightarrow> Inl (HTTPException 500 (''Failed to save article: '' @ e))
                 | Inr result \<Rightarrow> Inr [(''message'', PyStr ''Article saved'')],
                 issue (TableInsert ''savednews''
                          (article_dict article @ [(''user_id'', PyStr user_id)]))
                   (issue (GetUser (sent_token a)) st)))"
  using assms
  by (simp add: save_article_def token_expression owner_appended Let_def split: sum.splits)

lemma add_to_history_run:
  assumes "a \<noteq> []"
  shows "add_to_history supabase article (Some a) st =
           (case get_user supabase (sent_token a) of
              Inl e \<Rightarrow> (Inl (HTTPException 401 ''Invalid token''), issue (GetUser (sent_token a)) st)
            | Inr user_id \<Rightarrow>
                (case insert_row supabase ''history''
                        (article_dict article @ [(''user_id'', PyStr user_id)]) of
                   Inl e \<Rightarrow> Inl (HTTPException 401 ''Invalid token'')
                 | Inr result \<Rightarrow> Inr [(''message'', PyStr ''Article added to history'')],
                 issue (TableInsert ''history''
                          (article_dict article @ [(''user_id'', PyStr user_id)]))
                   (issue (GetUser (sent_token a)) st)))"
  using assms
  by (simp add: add_to_history_def token_expression owner_appended Let_def split: sum.splits)

text \<open>
  C3 as stated fails: for a header with two spaces the token sent to the auth service is
  the field between them, not everything after the first space.
\<close>

theorem token_stops_at_second_space:
  "spec_token ''Bearer abc def'' = ''abc def''
   \<and> calls (snd (get_saved_news backend_up (Some ''Bearer abc def'') (fresh []))) =
       [GetUser ''abc'', TableSelect ''savednews'' ''user_id'' ''user-1'']"
  by (simp add: spec_token_def after_first_space_def get_saved_news_def subscript_def
      issue_def backend_up_def fresh_def)

text \<open>
  C3, amended. For every non-empty Authorization header, each of the four user-data
  handlers first asks the auth service about the same token: when the header contains a
  space, the part of the substring after the first space that comes before the next space
  (all of that substring when it has no further space); otherwise the header itself.
  \<open>Bearer abc123\<close> gives \<open>abc123\<close>, and \<open>abc123\<close> gives \<open>abc123\<close>.
\<close>

theorem token_is_second_field:
  assumes "a \<noteq> []"
  shows "(\<exists>rest. calls (snd (get_saved_news supabase (Some a) st)) =
                  calls st @ GetUser (sent_token a) # rest)
         \<and> (\<exists>rest. calls (snd (get_user_history supabase (Some a) st)) =
                  calls st @ GetUser (sent_token a) # rest)
         \<and> (\<exists>rest. calls (snd (save_article supabase article (Some a) st)) =
                  calls st @ GetUser (sent_token a) # rest)
         \<and> (\<exists>rest. calls (snd (add_to_history supabase article (Some a) st)) =
                  calls st @ GetUser (sent_token a) # rest)
         \<and> sent_token a =
             (if CHR '' '' \<in> set a
              then takeWhile (\<lambda>c. c \<noteq> CHR '' '') (after_first_space a) else a)
         \<and> (CHR '' '' \<notin> set (after_first_space a) \<longrightarrow> sent_token a = spec_token a)
         \<and> sent_token ''Bearer abc123'' = ''abc123''
         \<and> sent_token ''abc123'' = ''abc123''"
proof -
  have saved: "\<exists>rest. calls (snd (get_saved_news supabase (Some a) st)) =
                  calls st @ GetUser (sent_token a) # rest"
    by (simp add: get_saved_news_run [OF assms] issue_def split: sum.splits)
  have history: "\<exists>rest. calls (snd (get_user_history supabase (Some a) st)) =
                  calls st @ GetUser (sent_token a) # rest"
    by (simp add: get_user_history_run [OF assms] issue_def split: sum.splits)
  have save: "\<exists>rest. calls (snd (save_article supabase article (Some a) st)) =
                  calls st @ GetUser (sent_token a) # rest"
    by (simp add: save_article_run [OF assms] issue_def split: sum.splits)
  have add: "\<exists>rest. calls (snd (add_to_history supabase article (Some a) st)) =
                  calls st @ GetUser (sent_token a) # rest"
    by (simp add: add_to_history_run [OF assms] issue_def split: sum.splits)
  have shape: "sent_token a =
             (if CHR '' '' \<in> set a
              then takeWhile (\<lambda>c. c \<noteq> CHR '' '') (after_first_space a) else a)"
    by (simp add: sent_token_def second_field_def)
  have one_space: "CHR '' '' \<notin> set (after_first_space a) \<longrightarrow> sent_token a = spec_token a"
    by (auto simp: sent_token_def spec_token_def second_field_def)
  have ex1: "sent_token ''Bearer abc123'' = ''abc123''"
    by (simp add: sent_token_def second_field_def after_first_space_def)
  have ex2: "sent_token ''abc123'' = ''abc123''"
    by (simp add: sent_token_def)
  from saved history save add shape one_space ex1 ex2 show ?thesis
    by blast
qed

theorem token_is_second_field_witness:
  "calls (snd (get_saved_news backend_up (Some ''Bearer abc123'') (fresh []))) =
     [GetUser ''abc123'', TableSelect ''savednews'' ''user_id'' ''user-1'']
   \<and> calls (snd (add_to_history backend_up story (Some ''abc123'') (fresh []))) =
     [GetUser ''abc123'',
      TableInsert ''history''
        [(''title'', PyStr ''Headline''), (''description'', PyStr ''Summary''),
         (''content'', PyNone), (''url'', PyStr ''https://example.org/a''),
         (''image'', PyNone), (''publishedAt'', PyStr ''2024-01-01T00:00:00Z''),
         (''user_id'', PyStr ''user-1'')]]"
proof -
  have h: "''Bearer abc123'' \<noteq> []"
    by simp
  have t: "sent_token ''Bearer abc123'' = ''abc123''"
    using token_is_second_field [OF h] by blast
  have a: "calls (snd (get_saved_news backend_up (Some ''Bearer abc123'') (fresh []))) =
     [GetUser ''abc123'', TableSelect ''savednews'' ''user_id'' ''user-1'']"
    by (simp add: get_saved_news_run [OF h] t issue_def backend_up_def fresh_def)
  have h2: "''abc123'' \<noteq> []"
    by simp
  have t2: "sent_token ''abc123'' = ''abc123''"
    by (simp add: sent_token_def)
  have b: "calls (snd (add_to_history backend_up story (Some ''abc123'') (fresh []))) =
     [GetUser ''abc123'',
      TableInsert ''history''
        [(''title'', PyStr ''Headline''), (''description'', PyStr ''Summary''),
         (''content'', PyNone), (''url'', PyStr ''https://example.org/a''),
         (''image'', PyNone), (''publishedAt'', PyStr ''2024-01-01T00:00:00Z''),
         (''user_id'', PyStr ''user-1'')]]"
    by (simp add: add_to_history_run [OF h2] t2 issue_def backend_up_def fresh_def
        article_dict_def story_def optional_def)
  from a b show ?thesis by simp
qed

text \<open>
  C8. When the header is not empty and the auth service resolves its token to a user id,
  the saved-articles write issues, after that resolution, exactly one insert into
  \<open>savednews\<close>. The inserted row holds the six declared fields of the article, each with
  the article's own value (an absent optional field as \<open>None\<close>), followed by the resolved
  user id under \<open>user_id\<close>; none of the article's fields is \<open>user_id\<close>.
\<close>

theorem save_article_attaches_owner:
  assumes "a \<noteq> []" and "get_user supabase (sent_token a) = Inr uid"
  shows "calls (snd (save_article supabase article (Some a) st)) =
           calls st @
           [GetUser (sent_token a),
            TableInsert ''savednews''
              [(''title'', PyStr (title article)),
               (''description'', PyStr (description article)),
               (''content'', case content article of None \<Rightarrow> PyNone | Some s \<Rightarrow> PyStr s),
               (''url'', PyStr (url article)),
               (''image'', case image_field article of None \<Rightarrow> PyNone | Some s \<Rightarrow> PyStr s),
               (''publishedAt'',
                  case publishedAt article of None \<Rightarrow> PyNone | Some s \<Rightarrow> PyStr s),
               (''user_id'', PyStr uid)]]
         \<and> article_dict article =
             [(''title'', PyStr (title article)),
              (''description'', PyStr (description article)),
              (''content'', case content article of None \<Rightarrow> PyNone | Some s \<Rightarrow> PyStr s),
              (''url'', PyStr (url article)),
              (''image'', case image_field article of None \<Rightarrow> PyNone | Some s \<Rightarrow> PyStr s),
              (''publishedAt'',
                 case publishedAt article of None \<Rightarrow> PyNone | Some s \<Rightarrow> PyStr s)]
         \<and> map_of (article_dict article @ [(''user_id'', PyStr uid)]) ''user_id'' =
             Some (PyStr uid)
         \<and> (\<forall>k. k \<noteq> ''user_id'' \<longrightarrow>
               map_of (article_dict article @ [(''user_id'', PyStr uid)]) k =
               map_of (article_dict article) k)
         \<and> map fst (article_dict article) =
             [''title'', ''description'', ''content'', ''url'', ''image'', ''publishedAt'']"
proof -
  have fields: "article_dict article =
             [(''title'', PyStr (title article)),
              (''description'', PyStr (description article)),
              (''content'', case content article of None \<Rightarrow> PyNone | Some s \<Rightarrow> PyStr s),
              (''url'', PyStr (url article)),
              (''image'', case image_field article of None \<Rightarrow> PyNone | Some s \<Rightarrow> PyStr s),
              (''publishedAt'',
                 case publishedAt article of None \<Rightarrow> PyNone | Some s \<Rightarrow> PyStr s)]"
    by (simp add: article_dict_def optional_def)
  have row: "article_dict article @ [(''user_id'', PyStr uid)] =
             AList.update ''user_id'' (PyStr uid) (article_dict article)"
    by (simp only: owner_appended)
  have "calls (snd (save_article supabase article (Some a) st)) =
           calls st @
           [GetUser (sent_token a),
            TableInsert ''savednews'' (article_dict article @ [(''user_id'', PyStr uid)])]"
    using assms(2) by (simp add: save_article_run [OF assms(1)] issue_def)
  then have log: "calls (snd (save_article supabase article (Some a) st)) =
           calls st @
           [GetUser (sent_token a),
            TableInsert ''savednews''
              [(''title'', PyStr (title article)),
               (''description'', PyStr (description article)),
               (''content'', case content article of None \<Rightarrow> PyNone | Some s \<Rightarrow> PyStr s),
               (''url'', PyStr (url article)),
               (''image'', case image_field article of None \<Rightarrow> PyNone | Some s \<Rightarrow> PyStr s),
               (''publishedAt'',
                  case publishedAt article of None \<Rightarrow> PyNone | Some s \<Rightarrow> PyStr s),
               (''user_id'', PyStr uid)]]"
    unfolding fields by simp
  have owner: "map_of (article_dict article @ [(''user_id'', PyStr uid)]) ''user_id'' =
             Some (PyStr uid)"
    unfolding row by (simp add: update_conv')
  have others: "\<forall>k. k \<noteq> ''user_id'' \<longrightarrow>
               map_of (article_dict article @ [(''user_id'', PyStr uid)]) k =
               map_of (article_dict article) k"
    unfolding row by (simp add: update_conv')
  have keys: "map fst (article_dict article) =
             [''title'', ''description'', ''content'', ''url'', ''image'', ''publishedAt'']"
    by (simp add: article_dict_def)
  from log fields owner others keys show ?thesis
    by blast
qed

theorem save_article_attaches_owner_witness:
  "calls (snd (save_article backend_up illustrated_story (Some ''Bearer abc123'') (fresh []))) =
     [GetUser ''abc123'',
      TableInsert ''savednews''
        [(''title'', PyStr ''Launch''), (''description'', PyStr ''A rocket''),
         (''content'', PyStr ''Full text''), (''url'', PyStr ''https://example.org/b''),
         (''image'', PyStr ''https://example.org/b.png''), (''publishedAt'', PyNone),
         (''user_id'', PyStr ''user-1'')]]
   \<and> calls (snd (save_article backend_up story (Some ''abc123'') (fresh []))) =
     [GetUser ''abc123'',
      TableInsert ''savednews''
        [(''title'', PyStr ''Headline''), (''description'', PyStr ''Summary''),
         (''content'', PyNone), (''url'', PyStr ''https://example.org/a''),
         (''image'', PyNone), (''publishedAt'', PyStr ''2024-01-01T00:00:00Z''),
         (''user_id'', PyStr ''user-1'')]]"
proof -
  have h1: "''Bearer abc123'' \<noteq> []"
    by simp
  have h2: "get_user backend_up (sent_token ''Bearer abc123'') = Inr ''user-1''"
    by (simp add: backend_up_def)
  have t: "sent_token ''Bearer abc123'' = ''abc123''"
    by (simp add: sent_token_def second_field_def after_first_space_def)
  have a: "calls (snd (save_article backend_up illustrated_story (Some ''Bearer abc123'')
                         (fresh []))) =
     [GetUser ''abc123'',
      TableInsert ''savednews''
        [(''title'', PyStr ''Launch''), (''description'', PyStr ''A rocket''),
         (''content'', PyStr ''Full text''), (''url'', PyStr ''https://example.org/b''),
         (''image'', PyStr ''https://example.org/b.png''), (''publishedAt'', PyNone),
         (''user_id'', PyStr ''user-1'')]]"
    using save_article_attaches_owner [OF h1 h2, of illustrated_story "fresh []"]
    by (simp add: t fresh_def illustrated_story_def)
  have g1: "''abc123'' \<noteq> []"
    by simp
  have g2: "get_user backend_up (sent_token ''abc123'') = Inr ''user-1''"
    by (simp add: backend_up_def)
  have t': "sent_token ''abc123'' = ''abc123''"
    by (simp add: sent_token_def)
  have b: "calls (snd (save_article backend_up story (Some ''abc123'') (fresh []))) =
     [GetUser ''abc123'',
      TableInsert ''savednews''
        [(''title'', PyStr ''Headline''), (''description'', PyStr ''Summary''),
         (''content'', PyNone), (''url'', PyStr ''https://example.org/a''),
         (''image'', PyNone), (''publishedAt'', PyStr ''2024-01-01T00:00:00Z''),
         (''user_id'', PyStr ''user-1'')]]"
    using save_article_attaches_owner [OF g1 g2, of story "fresh []"]
    by (simp add: t' fresh_def story_def)
  from a b show ?thesis by simp
qed

text \<open>
  C9. With a non-empty header whose token the auth service resolves, a failing insert
  makes the saved-articles write raise HTTP 500 (with the failure text after
  \<open>Failed to save article: \<close>), and makes the history write raise HTTP 401
  \<open>Invalid token\<close>; a successful insert makes them return the messages
  \<open>Article saved\<close> and \<open>Article added to history\<close>.
\<close>

theorem insert_failure_500_versus_401:
  assumes "a \<noteq> []" and "get_user supabase (sent_token a) = Inr uid"
  shows "(insert_row supabase ''savednews''
            (article_dict article @ [(''user_id'', PyStr uid)]) = Inl e \<longrightarrow>
          fst (save_article supabase article (Some a) st) =
            Inl (HTTPException 500 (''Failed to save article: '' @ e)))
         \<and> (insert_row supabase ''history''
              (article_dict article @ [(''user_id'', PyStr uid)]) = Inl e \<longrightarrow>
            fst (add_to_history supabase article (Some a) st) =
              Inl (HTTPException 401 ''Invalid token''))
         \<and> (insert_row supabase ''savednews''
              (article_dict article @ [(''user_id'', PyStr uid)]) = Inr v \<longrightarrow>
            fst (save_article supabase article (Some a) st) =
              Inr [(''message'', PyStr ''Article saved'')])
         \<and> (insert_row supabase ''history''
              (article_dict article @ [(''user_id'', PyStr uid)]) = Inr v \<longrightarrow>
            fst (add_to_history supabase article (Some a) st) =
              Inr [(''message'', PyStr ''Article added to history'')])"
  using assms(2)
  by (simp add: save_article_run [OF assms(1)] add_to_history_run [OF assms(1)])

theorem insert_failure_500_versus_401_witness:
  "fst (save_article storage_down story (Some ''Bearer abc123'') (fresh [])) =
     Inl (HTTPException 500 ''Failed to save article: relation does not exist'')
   \<and> fst (add_to_history storage_down story (Some ''Bearer abc123'') (fresh [])) =
     Inl (HTTPException 401 ''Invalid token'')
   \<and> fst (save_article backend_up story (Some ''Bearer abc123'') (fresh [])) =
     Inr [(''message'', PyStr ''Article saved'')]
   \<and> fst (add_to_history backend_up story (Some ''Bearer abc123'') (fresh [])) =
     Inr [(''message'', PyStr ''Article added to history'')]"
proof -
  have h1: "''Bearer abc123'' \<noteq> []"
    by simp
  have down: "get_user storage_down (sent_token ''Bearer abc123'') = Inr ''user-1''"
    by (simp add: storage_down_def)
  have up: "get_user backend_up (sent_token ''Bearer abc123'') = Inr ''user-1''"
    by (simp add: backend_up_def)
  have a: "fst (save_article storage_down story (Some ''Bearer abc123'') (fresh [])) =
             Inl (HTTPException 500 ''Failed to save article: relation does not exist'')
           \<and> fst (add_to_history storage_down story (Some ''Bearer abc123'') (fresh [])) =
             Inl (HTTPException 401 ''Invalid token'')"
    using insert_failure_500_versus_401
            [OF h1 down, of story "''relation does not exist''" "fresh []"]
    by (simp add: storage_down_def)
  have b: "fst (save_article backend_up story (Some ''Bearer abc123'') (fresh [])) =
             Inr [(''message'', PyStr ''Article saved'')]
           \<and> fst (add_to_history backend_up story (Some ''Bearer abc123'') (fresh [])) =
             Inr [(''message'', PyStr ''Article added to history'')]"
    using insert_failure_500_versus_401
            [OF h1 up, of story _ "fresh []" PyNone]
    by (simp add: backend_up_def)
  from a b show ?thesis by simp
qed

section \<open>Properties of the auth forwarding handlers\<close>

text \<open>
  C4 as stated fails on the wording of the fixed message: the text the login handler
  raises ends with a full stop.
\<close>

theorem login_message_ends_with_full_stop:
  "fst (login backend_down alice (fresh [])) =
     Inl (HTTPException 401 ''Invalid login credentials.'')
   \<and> fst (login backend_down alice (fresh [])) \<noteq>
     Inl (HTTPException 401 ''Invalid login credentials'')"
  by (simp add: login_def backend_down_def Let_def)

text \<open>
  C4, amended. Whenever the password sign-in call on the auth service fails, with
  whatever text, the login handler raises HTTP 401 with the fixed detail
  \<open>Invalid login credentials.\<close> (full stop included), in which the upstream text does
  not occur; whenever the sign-up call fails with text \<open>e\<close>, the signup handler raises
  HTTP 400 with detail \<open>e\<close>.
\<close>

theorem auth_failure_details:
  "(sign_in_with_password supabase
       [(''email'', PyStr (email user_credentials)),
        (''password'', PyStr (password user_credentials))] = Inl e \<longrightarrow>
      fst (login supabase user_credentials st) =
        Inl (HTTPException 401 ''Invalid login credentials.''))
   \<and> (sign_up supabase (signup_data user_credentials) = Inl e \<longrightarrow>
        fst (signup supabase user_credentials st) = Inl (HTTPException 400 e))"
  by (simp add: login_def signup_def Let_def)

theorem auth_failure_details_witness:
  "fst (login backend_down alice (fresh [])) =
     Inl (HTTPException 401 ''Invalid login credentials.'')
   \<and> fst (signup backend_down alice (fresh [])) =
     Inl (HTTPException 400 ''User already registered'')
   \<and> calls (snd (signup backend_down alice (fresh []))) =
     [SignUp [(''email'', PyStr ''alice@example.org''), (''password'', PyStr ''secret''),
              (''options'', PyDict [(''data'', PyDict [(''name'', PyStr ''Alice'')])])]]"
proof -
  have a: "fst (login backend_down alice (fresh [])) =
             Inl (HTTPException 401 ''Invalid login credentials.'')"
    using auth_failure_details [of backend_down alice "''Email not confirmed''" "fresh []"]
    by (simp add: backend_down_def)
  have b: "fst (signup backend_down alice (fresh [])) =
             Inl (HTTPException 400 ''User already registered'')"
    using auth_failure_details [of backend_down alice "''User already registered''" "fresh []"]
    by (simp add: backend_down_def)
  have c: "calls (snd (signup backend_down alice (fresh []))) =
     [SignUp [(''email'', PyStr ''alice@example.org''), (''password'', PyStr ''secret''),
              (''options'', PyDict [(''data'', PyDict [(''name'', PyStr ''Alice'')])])]]"
    by (simp add: signup_def signup_data_def alice_def backend_down_def issue_def fresh_def
        Let_def)
  from a b c show ?thesis by simp
qed

end
